theory Spec2Isabelle
  imports Main
begin

section \<open>Timeseries validation: the log channel and Python primitives\<close>

text \<open>
  The validators of \<^verbatim>\<open>timeseries.py\<close> report through the module logger and return
  a boolean. The logger is modelled as the list of records a call emits, in emission
  order; every function returns that list next to its value.
\<close>

datatype level = DEBUG | INFO | WARNING | ERROR

type_synonym log_record = "level \<times> string"

text \<open>
  \<^verbatim>\<open>xs[:limit]\<close>: a negative stop counts from the end of the list.
\<close>

definition slice_to :: "'a list \<Rightarrow> int \<Rightarrow> 'a list" where
  "slice_to xs limit =
     (if 0 \<le> limit then take (nat limit) xs
      else take (nat (int (length xs) + limit)) xs)"

text \<open>
  \<^verbatim>\<open>str(n)\<close> for an integer: decimal digits, with a minus sign below zero.
  \<open>digit_char\<close> is only applied to a number below ten.
\<close>

definition digit_char :: "nat \<Rightarrow> char" where
  "digit_char d = ''0123456789'' ! d"

fun str_nat :: "nat \<Rightarrow> string" where
  "str_nat n = (if n < 10 then [digit_char n] else str_nat (n div 10) @ [digit_char (n mod 10)])"

declare str_nat.simps [simp del]

definition str_int :: "int \<Rightarrow> string" where
  "str_int i = (if i < 0 then CHR ''-'' # str_nat (nat (- i)) else str_nat (nat i))"

text \<open>\<^verbatim>\<open>sep.join(xs)\<close>.\<close>

fun join :: "string \<Rightarrow> string list \<Rightarrow> string" where
  "join sep [] = []"
| "join sep [x] = x"
| "join sep (x # y # ys) = x @ sep @ join sep (y # ys)"

text \<open>
  \<^verbatim>\<open>Series.unique()\<close>: the distinct values of a column in order of first appearance.
\<close>

definition unique :: "'a list \<Rightarrow> 'a list" where
  "unique xs = rev (remdups (rev xs))"

text \<open>\<^verbatim>\<open>s.endswith(suffix)\<close>.\<close>

definition endswith :: "string \<Rightarrow> string \<Rightarrow> bool" where
  "endswith s suf = (length suf \<le> length s \<and> drop (length s - length suf) s = suf)"

subsection \<open>log_validation_errors\<close>

definition log_validation_errors :: "string \<Rightarrow> string list \<Rightarrow> level \<Rightarrow> int \<Rightarrow> log_record list" where
  "log_validation_errors message errors lvl limit =
     [(lvl, message @ '':'')]
     @ map (\<lambda>error. (lvl, ''- '' @ error)) (slice_to errors limit)
     @ (if int (length errors) > limit
        then [(lvl, ''and '' @ str_int (int (length errors) - limit) @ '' more...'')]
        else [])"

section \<open>Data model\<close>

text \<open>
  A dataset is the list of its rows; only the five columns the validators read are kept.
  A Python \<^verbatim>\<open>dict\<close> is an association list in insertion order, read with
  \<^const>\<open>map_of\<close>; its keys are \<^term>\<open>map fst d\<close>. Keys that the code reads
  with \<^verbatim>\<open>d['k']\<close> are record fields, keys it reads with \<^verbatim>\<open>d.get('k')\<close>
  are optional fields. A loop \<^verbatim>\<open>for k in d\<close> runs over the keys and reads
  \<^verbatim>\<open>d[k]\<close> with \<^const>\<open>map_of\<close>; the branch for a missing key is never
  taken, since \<open>k\<close> is a key.
\<close>

record row =
  model :: string
  scenario :: string
  region :: string
  variable :: string
  unit :: string

type_synonym dataframe = "row list"

record variable_entry =
  entry_unit :: string
  entry_required :: "bool option"

type_synonym variable_config = "(string \<times> variable_entry) list"

record 'v region_mapping =
  mapping_model :: "string option"
  native_regions :: "(string \<times> 'v) list"
  region_aggregation :: "(string \<times> 'v) list"

text \<open>
  Modelled from the spec: the class \<^verbatim>\<open>IxmpServerWorkflowError\<close> of the module
  \<^verbatim>\<open>errors\<close>, which is not among the sources. The specification has it as a
  distinguished error kind that carries a descriptive message; \<open>str_error\<close> is the
  text that logging the exception writes.
\<close>

datatype error = IxmpServerWorkflowError string

fun str_error :: "error \<Rightarrow> string" where
  "str_error (IxmpServerWorkflowError msg) = msg"

text \<open>
  The file system as \<^verbatim>\<open>get_region_mapping\<close> sees it: \<^verbatim>\<open>os.path.isdir\<close>,
  \<^verbatim>\<open>os.listdir\<close> and the document that \<^verbatim>\<open>yaml.load\<close> reads from a path.
  The files of a mapping directory are region-mapping documents, with the keys
  \<^verbatim>\<open>native_regions\<close> and \<^verbatim>\<open>region_aggregation\<close>; the values under
  their keys are never read and have the type \<open>'v\<close>. A file that cannot be opened
  or does not parse to a mapping makes the library raise an error of its own, which
  no function here handles; such directories are outside the model.
\<close>

record 'v filesystem =
  isdir :: "string \<Rightarrow> bool"
  listdir :: "string \<Rightarrow> string list"
  yaml_load :: "string \<Rightarrow> 'v region_mapping"

text \<open>
  A Python \<^verbatim>\<open>set\<close> of strings is kept as the list of its distinct elements. The
  order in which the interpreter enumerates a set is not fixed by the language; every
  validator takes it as the parameter \<open>iter\<close>, applied where the code turns a set
  into a list or joins it. \<open>set_order iter\<close> says that \<open>iter\<close> only rearranges.
\<close>

type_synonym set_iter = "string list \<Rightarrow> string list"

definition set_order :: "set_iter \<Rightarrow> bool" where
  "set_order iter = (\<forall>xs. set (iter xs) = set xs \<and> length (iter xs) = length xs)"

text \<open>\<^verbatim>\<open>set(xs) - set(ys)\<close>.\<close>

definition set_diff :: "string list \<Rightarrow> string list \<Rightarrow> string list" where
  "set_diff xs ys = filter (\<lambda>x. x \<notin> set ys) xs"

text \<open>\<^verbatim>\<open>os.path.join(a, b)\<close> on a POSIX system.\<close>

definition path_join :: "string \<Rightarrow> string \<Rightarrow> string" where
  "path_join a b =
     (if take 1 b = ''/'' then b
      else if a = [] \<or> endswith a ''/'' then a @ b
      else a @ ''/'' @ b)"

section \<open>The validators\<close>

subsection \<open>validate_variables_and_units\<close>

fun units_loop :: "dataframe \<Rightarrow> variable_config \<Rightarrow> string list \<Rightarrow> bool \<times> string list
    \<Rightarrow> bool \<times> string list" where
  "units_loop df variable_config [] st = st"
| "units_loop df variable_config (v # vs) (valid, unknown_variable_units) =
     (case map_of variable_config v of
        None \<Rightarrow> units_loop df variable_config vs (valid, unknown_variable_units)
      | Some entry \<Rightarrow>
          (let u = entry_unit entry;
               variable_df = filter (\<lambda>r. variable r = v \<and> unit r \<noteq> u) df;
               unknown_units = unique (map unit variable_df)
           in if length unknown_units > 0
              then units_loop df variable_config vs
                     (False, unknown_variable_units @ [v @ '': '' @ join '', '' unknown_units])
              else units_loop df variable_config vs (valid, unknown_variable_units)))"

definition validate_variables_and_units :: "set_iter \<Rightarrow> dataframe \<Rightarrow> variable_config
    \<Rightarrow> bool \<times> log_record list" where
  "validate_variables_and_units iter df variable_config =
     (let log0 = [(DEBUG, ''Start variables/units validation'')];
          unknown_variables = set_diff (unique (map variable df)) (map fst variable_config);
          st1 = (if length unknown_variables > 0
                 then (False, log0 @ log_validation_errors ''Unknown variable(s)''
                                       (iter unknown_variables) WARNING 100)
                 else (True, log0));
          st2 = units_loop df variable_config (map fst variable_config) (fst st1, []);
          log2 = (if length (snd st2) > 0
                  then snd st1 @ log_validation_errors ''Unknown unit(s) for variable(s):''
                                   (snd st2) WARNING 100
                  else snd st1)
      in (fst st2, log2 @ [(DEBUG, ''Finish variables/units validation'')]))"

subsection \<open>validate_required_variables\<close>

fun required_loop :: "set_iter \<Rightarrow> dataframe \<Rightarrow> variable_config \<Rightarrow> string list
    \<Rightarrow> bool \<times> log_record list \<Rightarrow> bool \<times> log_record list" where
  "required_loop iter df variable_config [] st = st"
| "required_loop iter df variable_config (v # vs) (valid, lg) =
     (case map_of variable_config v of
        None \<Rightarrow> required_loop iter df variable_config vs (valid, lg)
      | Some entry \<Rightarrow>
          (let required = (case entry_required entry of None \<Rightarrow> False | Some b \<Rightarrow> b)
           in if required
              then
                (let variable_df = filter (\<lambda>r. variable r = v) df;
                     invalid_models =
                       set_diff (unique (map model df)) (unique (map model variable_df));
                     st1 = (if length invalid_models > 0
                            then (False, lg @ [(WARNING,
                                    ''Following models miss required variable '' @ v @ '': ''
                                    @ join '', '' (iter invalid_models))])
                            else (valid, lg));
                     invalid_scenarios =
                       set_diff (unique (map scenario df)) (unique (map scenario variable_df));
                     st2 = (if length invalid_scenarios > 0
                            then (False, snd st1 @ [(WARNING,
                                    ''Following scenarios miss required variable '' @ v @ '': ''
                                    @ join '', '' (iter invalid_scenarios))])
                            else st1)
                 in required_loop iter df variable_config vs st2)
              else required_loop iter df variable_config vs (valid, lg)))"

definition validate_required_variables :: "set_iter \<Rightarrow> dataframe \<Rightarrow> variable_config
    \<Rightarrow> bool \<times> log_record list" where
  "validate_required_variables iter df variable_config =
     (let st = required_loop iter df variable_config (map fst variable_config)
                 (True, [(DEBUG, ''Start required variables validation'')])
      in (fst st, snd st @ [(DEBUG, ''Finish required variables validation'')]))"

subsection \<open>validate_allowed_scenarios\<close>

definition validate_allowed_scenarios :: "set_iter \<Rightarrow> dataframe \<Rightarrow> string list
    \<Rightarrow> bool \<times> log_record list" where
  "validate_allowed_scenarios iter df allowed_scenarios =
     (let scenarios = unique (map scenario df);
          unknown_scenarios = set_diff scenarios allowed_scenarios
      in if length unknown_scenarios > 0
         then (False, log_validation_errors ''Scenario(s) not allowed''
                        (iter unknown_scenarios) WARNING 100)
         else (True, []))"

subsection \<open>get_region_mapping\<close>

fun search_mapping :: "'v filesystem \<Rightarrow> string \<Rightarrow> string \<Rightarrow> string list
    \<Rightarrow> 'v region_mapping option" where
  "search_mapping fs mappings_path m [] = None"
| "search_mapping fs mappings_path m (filename # rest) =
     (if endswith filename ''.yaml'' \<or> endswith filename ''.yml''
      then (let region_mapping = yaml_load fs (path_join mappings_path filename)
            in if mapping_model region_mapping = Some m then Some region_mapping
               else search_mapping fs mappings_path m rest)
      else search_mapping fs mappings_path m rest)"

definition not_found_message :: "string \<Rightarrow> string \<Rightarrow> string" where
  "not_found_message m mappings_path =
     ''No region mapping found for model \"'' @ m @ ''\" in path \"'' @ mappings_path @ ''\"''"

definition get_region_mapping :: "'v filesystem \<Rightarrow> string \<Rightarrow> string
    \<Rightarrow> log_record list \<times> (error + 'v region_mapping)" where
  "get_region_mapping fs mappings_path m =
     (if \<not> isdir fs mappings_path
      then (let msg = ''Directory containing region mappings does not exists: '' @ mappings_path
            in ([(ERROR, msg)], Inl (IxmpServerWorkflowError msg)))
      else (case search_mapping fs mappings_path m (listdir fs mappings_path) of
              Some region_mapping \<Rightarrow> ([], Inr region_mapping)
            | None \<Rightarrow> ([], Inl (IxmpServerWorkflowError (not_found_message m mappings_path)))))"

subsection \<open>validate_region_mappings\<close>

text \<open>
  The \<^verbatim>\<open>try\<close> of the loop body is the case distinction on what the resolver
  gives: its error is caught, logged and the loop continues. Nothing else in the body
  raises, so the function returns its flag and never an error.
\<close>

fun region_loop :: "set_iter \<Rightarrow> 'v filesystem \<Rightarrow> dataframe \<Rightarrow> string \<Rightarrow> string list
    \<Rightarrow> bool \<times> log_record list \<Rightarrow> bool \<times> log_record list" where
  "region_loop iter fs df region_mapping_path [] st = st"
| "region_loop iter fs df region_mapping_path (m # ms) (valid, lg) =
     (case get_region_mapping fs region_mapping_path m of
        (glog, Inl err) \<Rightarrow>
          region_loop iter fs df region_mapping_path ms
            (False, lg @ glog @ [(ERROR, str_error err)])
      | (glog, Inr region_mapping) \<Rightarrow>
          (let valid_region_names =
                 map fst (native_regions region_mapping)
                 @ map fst (region_aggregation region_mapping) @ [''World''];
               invalid_region_names =
                 set_diff (unique (map region (filter (\<lambda>r. model r = m) df)))
                   valid_region_names
           in if invalid_region_names \<noteq> []
              then region_loop iter fs df region_mapping_path ms
                     (False, lg @ glog @ [(WARNING,
                        ''Model '' @ m @ '' contains unknown region names: ''
                        @ join '', '' (iter invalid_region_names))])
              else region_loop iter fs df region_mapping_path ms (valid, lg @ glog)))"

definition validate_region_mappings :: "set_iter \<Rightarrow> 'v filesystem \<Rightarrow> dataframe \<Rightarrow> string
    \<Rightarrow> bool \<times> log_record list" where
  "validate_region_mappings iter fs df region_mapping_path =
     (let models = unique (map model df);
          st = (if length models = 0
                then (False, [(WARNING, ''No models to process!'')])
                else (True, []))
      in region_loop iter fs df region_mapping_path models st)"

subsection \<open>The reporter as the specification words it\<close>

text \<open>
  The specification of \<^verbatim>\<open>log_validation_errors\<close>: the heading, then the first
  \<open>min (length es) limit\<close> errors as bullets, then a summary line when more remain.
  It is compared with the definition taken from the source.
\<close>

definition reported_as_specified :: "string \<Rightarrow> string list \<Rightarrow> level \<Rightarrow> int \<Rightarrow> log_record list" where
  "reported_as_specified heading es lvl limit =
     [(lvl, heading @ '':'')]
     @ map (\<lambda>e. (lvl, ''- '' @ e)) (take (nat (min (int (length es)) limit)) es)
     @ (if int (length es) > limit
        then [(lvl, ''and '' @ str_int (int (length es) - limit) @ '' more...'')]
        else [])"

subsection \<open>Notions used to state the properties\<close>

text \<open>
  A variable is required when its configuration entry has a true \<^verbatim>\<open>required\<close>
  key. The models (scenarios) missing a variable are those of the dataset that have no
  row for it. \<open>required_report\<close> is what the check of one variable logs.
\<close>

definition is_required :: "variable_config \<Rightarrow> string \<Rightarrow> bool" where
  "is_required variable_config v =
     (case map_of variable_config v of
        None \<Rightarrow> False
      | Some entry \<Rightarrow> (case entry_required entry of None \<Rightarrow> False | Some b \<Rightarrow> b))"

definition missing_models :: "dataframe \<Rightarrow> string \<Rightarrow> string list" where
  "missing_models df v =
     set_diff (unique (map model df)) (unique (map model (filter (\<lambda>r. variable r = v) df)))"

definition missing_scenarios :: "dataframe \<Rightarrow> string \<Rightarrow> string list" where
  "missing_scenarios df v =
     set_diff (unique (map scenario df))
       (unique (map scenario (filter (\<lambda>r. variable r = v) df)))"

definition required_report :: "set_iter \<Rightarrow> dataframe \<Rightarrow> variable_config \<Rightarrow> string
    \<Rightarrow> log_record list" where
  "required_report iter df variable_config v =
     (if is_required variable_config v
      then (if missing_models df v = [] then []
            else [(WARNING, ''Following models miss required variable '' @ v @ '': ''
                     @ join '', '' (iter (missing_models df v)))])
         @ (if missing_scenarios df v = [] then []
            else [(WARNING, ''Following scenarios miss required variable '' @ v @ '': ''
                     @ join '', '' (iter (missing_scenarios df v)))])
      else [])"

subsection \<open>Sample inputs\<close>

text \<open>
  A small dataset, configuration and mapping directory in the shape of the ones the
  tests read: model \<open>model\<close> has a mapping file and uses one region the mapping does
  not know, model \<open>invalid_model\<close> has no mapping file and no row for the required
  variable.
\<close>

definition mk_row :: "string \<Rightarrow> string \<Rightarrow> string \<Rightarrow> string \<Rightarrow> string \<Rightarrow> row" where
  "mk_row m s g v u = \<lparr>model = m, scenario = s, region = g, variable = v, unit = u\<rparr>"

definition sample_timeseries :: dataframe where
  "sample_timeseries =
     [mk_row ''model'' ''valid_scenario'' ''World'' ''Emissions|CO2'' ''Mt CO2/yr'',
      mk_row ''model'' ''invalid_scenario'' ''Unknown country'' ''Emissions|CO2'' ''kt CO2/yr'',
      mk_row ''invalid_model'' ''invalid_scenario'' ''World'' ''Emissions|CH4'' ''Mt CH4/yr'']"

definition sample_variable_config :: variable_config where
  "sample_variable_config =
     [(''Emissions|CO2'', \<lparr>entry_unit = ''Mt CO2/yr'', entry_required = Some True\<rparr>)]"

definition sample_filesystem :: "unit filesystem" where
  "sample_filesystem =
     \<lparr>isdir = (\<lambda>p. p = ''region_mapping''),
      listdir = (\<lambda>p. if p = ''region_mapping'' then [''README.md'', ''model.yaml''] else []),
      yaml_load = (\<lambda>p.
        \<lparr>mapping_model = (if p = ''region_mapping/model.yaml'' then Some ''model'' else None),
         native_regions = [(''Some country'', ())],
         region_aggregation = [(''Some region'', ())]\<rparr>)\<rparr>"

subsection \<open>Reading the log\<close>

text \<open>
  "The log contains \<open>s\<close>": some record's message has \<open>s\<close> as a contiguous part.
\<close>

definition is_substring :: "string \<Rightarrow> string \<Rightarrow> bool" where
  "is_substring s t = list_ex (\<lambda>k. take (length s) (drop k t) = s) [0..<Suc (length t)]"

definition log_contains :: "log_record list \<Rightarrow> string \<Rightarrow> bool" where
  "log_contains lg s = list_ex (\<lambda>rec. is_substring s (snd rec)) lg"

text \<open>
  What the unit check of one configured variable adds to the accumulator
  \<^verbatim>\<open>unknown_variable_units\<close>, and the accumulator after the whole loop.
\<close>

definition unit_report :: "dataframe \<Rightarrow> variable_config \<Rightarrow> string \<Rightarrow> string list" where
  "unit_report df variable_config v =
     (case map_of variable_config v of
        None \<Rightarrow> []
      | Some entry \<Rightarrow>
          (let unknown_units =
                 unique (map unit (filter (\<lambda>r. variable r = v \<and> unit r \<noteq> entry_unit entry) df))
           in if unknown_units = [] then [] else [v @ '': '' @ join '', '' unknown_units]))"

definition unknown_unit_lines :: "dataframe \<Rightarrow> variable_config \<Rightarrow> string list" where
  "unknown_unit_lines df variable_config =
     concat (map (unit_report df variable_config) (map fst variable_config))"

text \<open>
  A configuration of 101 variables \<open>v\<close>, \<open>vv\<close>, ... with unit \<open>u\<close>, and a dataset
  with one row per variable, each with unit \<open>x\<close>.
\<close>

definition many_names :: "string list" where
  "many_names = map (\<lambda>n. replicate (Suc n) CHR ''v'') [0..<101]"

definition many_variable_config :: variable_config where
  "many_variable_config =
     map (\<lambda>v. (v, \<lparr>entry_unit = ''u'', entry_required = None\<rparr>)) many_names"

definition many_timeseries :: dataframe where
  "many_timeseries = map (\<lambda>v. mk_row ''model'' ''scenario'' ''World'' v ''x'') many_names"

subsection \<open>Notions used to state the region-mapping properties\<close>

text \<open>
  A file of the directory listing matches a model when its name ends in a recognised
  extension and the \<^verbatim>\<open>model\<close> key of its document is that model.
  \<open>model_report\<close> is what the loop of \<^verbatim>\<open>validate_region_mappings\<close> logs for
  one model: the records of the resolver, then the caught error or the warning about
  unknown regions.
\<close>

definition is_mapping_file :: "'v filesystem \<Rightarrow> string \<Rightarrow> string \<Rightarrow> string \<Rightarrow> bool" where
  "is_mapping_file fs mappings_path m filename =
     ((endswith filename ''.yaml'' \<or> endswith filename ''.yml'')
      \<and> mapping_model (yaml_load fs (path_join mappings_path filename)) = Some m)"

definition model_regions :: "dataframe \<Rightarrow> string \<Rightarrow> string list" where
  "model_regions df m = unique (map region (filter (\<lambda>r. model r = m) df))"

definition valid_region_names :: "'v region_mapping \<Rightarrow> string list" where
  "valid_region_names region_mapping =
     map fst (native_regions region_mapping)
     @ map fst (region_aggregation region_mapping) @ [''World'']"

definition model_report :: "set_iter \<Rightarrow> 'v filesystem \<Rightarrow> dataframe \<Rightarrow> string \<Rightarrow> string
    \<Rightarrow> log_record list" where
  "model_report iter fs df region_mapping_path m =
     fst (get_region_mapping fs region_mapping_path m)
     @ (case snd (get_region_mapping fs region_mapping_path m) of
          Inl err \<Rightarrow> [(ERROR, str_error err)]
        | Inr region_mapping \<Rightarrow>
            (if set_diff (model_regions df m) (valid_region_names region_mapping) = [] then []
             else [(WARNING, ''Model '' @ m @ '' contains unknown region names: ''
                      @ join '', '' (iter (set_diff (model_regions df m)
                                            (valid_region_names region_mapping))))]))"

section \<open>Properties\<close>

subsection \<open>The reporter\<close>

lemma slice_to_nonneg:
  "0 \<le> limit \<Longrightarrow> slice_to xs limit = take (nat (min (int (length xs)) limit)) xs"
  by (simp add: slice_to_def min_def)

text \<open>
  C8, for a limit that is not negative: the reporter logs the heading, then the first
  \<open>min (length es) limit\<close> errors as bullets in list order, then the summary line with
  the count \<open>length es - limit\<close> exactly when \<open>length es > limit\<close>.
\<close>

theorem log_validation_errors_limit:
  assumes "0 \<le> limit"
  shows "log_validation_errors heading es lvl limit = reported_as_specified heading es lvl limit
    \<and> length (log_validation_errors heading es lvl limit)
        = 1 + min (length es) (nat limit) + (if int (length es) > limit then 1 else 0)
    \<and> log_validation_errors heading es lvl limit ! 0 = (lvl, heading @ '':'')
    \<and> (\<forall>i < min (length es) (nat limit).
          log_validation_errors heading es lvl limit ! Suc i = (lvl, ''- '' @ es ! i))
    \<and> (int (length es) > limit \<longrightarrow>
          last (log_validation_errors heading es lvl limit)
            = (lvl, ''and '' @ str_int (int (length es) - limit) @ '' more...''))"
proof (intro conjI allI impI)
  show "log_validation_errors heading es lvl limit = reported_as_specified heading es lvl limit"
    using assms
    by (simp add: log_validation_errors_def reported_as_specified_def slice_to_nonneg)
  show "length (log_validation_errors heading es lvl limit)
        = 1 + min (length es) (nat limit) + (if int (length es) > limit then 1 else 0)"
    using assms by (simp add: log_validation_errors_def slice_to_def)
  show "log_validation_errors heading es lvl limit ! 0 = (lvl, heading @ '':'')"
    by (simp add: log_validation_errors_def)
next
  fix i assume i: "i < min (length es) (nat limit)"
  then have "i < length (map (\<lambda>error. (lvl, ''- '' @ error)) (take (nat limit) es))"
    by simp
  then have "(map (\<lambda>error. (lvl, ''- '' @ error)) (take (nat limit) es) @ rest) ! i
      = (lvl, ''- '' @ es ! i)" for rest
    using i by (simp add: nth_append)
  then show "log_validation_errors heading es lvl limit ! Suc i = (lvl, ''- '' @ es ! i)"
    using assms by (simp add: log_validation_errors_def slice_to_def)
next
  assume "int (length es) > limit"
  then show "last (log_validation_errors heading es lvl limit)
            = (lvl, ''and '' @ str_int (int (length es) - limit) @ '' more...'')"
    by (simp add: log_validation_errors_def)
qed

theorem log_validation_errors_limit_witness:
  "log_validation_errors ''h'' [''a'', ''b''] WARNING 1
     = [(WARNING, ''h:''), (WARNING, ''- a''), (WARNING, ''and 1 more...'')]"
proof -
  have "(0::int) \<le> 1" by simp
  from log_validation_errors_limit [OF this, of "''h''" "[''a'', ''b'']" WARNING]
  show ?thesis
    by (simp add: reported_as_specified_def str_int_def str_nat.simps digit_char_def)
qed

text \<open>
  With a negative limit the slice \<^verbatim>\<open>errors[:limit]\<close> drops elements from the end
  of the list: for two errors and limit \<open>-1\<close> one bullet is logged, where the
  specification has none, and the summary counts three more.
\<close>

theorem log_validation_errors_negative_limit:
  "log_validation_errors ''h'' [''a'', ''b''] WARNING (- 1)
     = [(WARNING, ''h:''), (WARNING, ''- a''), (WARNING, ''and 3 more...'')]
   \<and> log_validation_errors ''h'' [''a'', ''b''] WARNING (- 1)
     \<noteq> reported_as_specified ''h'' [''a'', ''b''] WARNING (- 1)"
  by (simp add: log_validation_errors_def reported_as_specified_def slice_to_def
      str_int_def str_nat.simps digit_char_def)

subsection \<open>The empty dataset\<close>

text \<open>
  C7: on a dataset with no rows \<^verbatim>\<open>validate_region_mappings\<close> returns false and
  logs the warning "No models to process!", whatever the mapping directory holds.
\<close>

theorem validate_region_mappings_empty:
  "validate_region_mappings iter fs [] region_mapping_path
     = (False, [(WARNING, ''No models to process!'')])"
  by (simp add: validate_region_mappings_def unique_def)

lemma required_loop_empty:
  "required_loop iter [] variable_config vs (True, lg) = (True, lg)"
  by (induction vs) (simp_all add: set_diff_def unique_def split: option.splits)

text \<open>
  C10: on a dataset with no rows \<^verbatim>\<open>validate_required_variables\<close> returns true for
  every configuration and logs the two debug records only, no warning, while
  \<^verbatim>\<open>validate_region_mappings\<close> returns false on the same dataset.
\<close>

theorem validate_required_variables_empty:
  "validate_required_variables iter [] variable_config
     = (True, [(DEBUG, ''Start required variables validation''),
               (DEBUG, ''Finish required variables validation'')])
   \<and> WARNING \<notin> fst ` set (snd (validate_required_variables iter [] variable_config))
   \<and> fst (validate_region_mappings iter fs [] region_mapping_path) = False"
  by (simp add: validate_required_variables_def required_loop_empty
      validate_region_mappings_def unique_def)

subsection \<open>Columns and sets\<close>

lemma set_unique [simp]: "set (unique xs) = set xs"
  by (simp add: unique_def)

lemma distinct_unique [simp]: "distinct (unique xs)"
  by (simp add: unique_def)

lemma unique_eq_Nil [simp]: "unique xs = [] \<longleftrightarrow> xs = []"
  by (metis set_unique set_empty)

lemma set_diff_eq_Nil: "set_diff xs ys = [] \<longleftrightarrow> set xs \<subseteq> set ys"
  by (auto simp: set_diff_def filter_empty_conv)

lemma set_set_diff [simp]: "set (set_diff xs ys) = set xs - set ys"
  by (auto simp: set_diff_def)

subsection \<open>Variables and units\<close>

lemma units_loop_valid:
  "fst (units_loop df variable_config vs (valid, acc)) =
     (valid \<and> (\<forall>v\<in>set vs. \<forall>e. map_of variable_config v = Some e \<longrightarrow>
        (\<forall>r\<in>set df. variable r = v \<longrightarrow> unit r = entry_unit e)))"
proof (induction vs arbitrary: valid acc)
  case Nil
  then show ?case by simp
next
  case (Cons v vs)
  show ?case
  proof (cases "map_of variable_config v")
    case None
    then show ?thesis by (simp add: Cons.IH)
  next
    case (Some e)
    then show ?thesis
      by (auto simp: Cons.IH Let_def filter_empty_conv)
  qed
qed

text \<open>
  C1: \<^verbatim>\<open>validate_variables_and_units\<close> returns true exactly when every distinct
  variable of the dataset is a key of the configuration and every row carries the unit
  that the configuration gives for the row's variable.
\<close>

theorem validate_variables_and_units_iff:
  "fst (validate_variables_and_units iter df variable_config) =
     ((\<forall>v\<in>set (unique (map variable df)). v \<in> set (map fst variable_config))
      \<and> (\<forall>r\<in>set df. map_option entry_unit (map_of variable_config (variable r)) = Some (unit r)))"
proof -
  let ?known = "\<forall>v\<in>set (unique (map variable df)). v \<in> set (map fst variable_config)"
  let ?loop = "\<forall>v\<in>set (map fst variable_config). \<forall>e. map_of variable_config v = Some e \<longrightarrow>
        (\<forall>r\<in>set df. variable r = v \<longrightarrow> unit r = entry_unit e)"
  let ?rows = "\<forall>r\<in>set df.
        map_option entry_unit (map_of variable_config (variable r)) = Some (unit r)"
  have lhs: "fst (validate_variables_and_units iter df variable_config) = (?known \<and> ?loop)"
    by (auto simp: validate_variables_and_units_def Let_def units_loop_valid set_diff_eq_Nil
        simp del: set_map)
  have "(?known \<and> ?loop) = (?known \<and> ?rows)"
  proof (cases ?known)
    case False
    then show ?thesis by blast
  next
    case True
    have key: "\<exists>e. map_of variable_config (variable r) = Some e" if "r \<in> set df" for r
    proof -
      from that have "variable r \<in> set (map fst variable_config)" using True by simp
      then have "map_of variable_config (variable r) \<noteq> None"
        by (simp add: map_of_eq_None_iff)
      then show ?thesis by blast
    qed
    have "?loop = ?rows"
    proof
      assume l: ?loop
      show ?rows
      proof
        fix r assume r: "r \<in> set df"
        from key [OF r] obtain e where e: "map_of variable_config (variable r) = Some e" by blast
        then have "variable r \<in> set (map fst variable_config)"
          by (metis map_of_eq_None_iff option.distinct(1) set_map)
        with l e r have "unit r = entry_unit e" by blast
        with e show "map_option entry_unit (map_of variable_config (variable r)) = Some (unit r)"
          by simp
      qed
    next
      assume rr: ?rows
      show ?loop
      proof (intro ballI allI impI)
        fix v e r
        assume "map_of variable_config v = Some e" "r \<in> set df" "variable r = v"
        with rr show "unit r = entry_unit e" by fastforce
      qed
    qed
    then show ?thesis by blast
  qed
  with lhs show ?thesis by blast
qed

theorem validate_variables_and_units_iff_witness:
  "fst (validate_variables_and_units id
     [\<lparr>model = ''model'', scenario = ''valid_scenario'', region = ''World'',
       variable = ''Emissions|CO2'', unit = ''Mt CO2/yr''\<rparr>]
     [(''Emissions|CO2'', \<lparr>entry_unit = ''Mt CO2/yr'', entry_required = None\<rparr>)])"
  using validate_variables_and_units_iff [of id
     "[\<lparr>model = ''model'', scenario = ''valid_scenario'', region = ''World'',
       variable = ''Emissions|CO2'', unit = ''Mt CO2/yr''\<rparr>]"
     "[(''Emissions|CO2'', \<lparr>entry_unit = ''Mt CO2/yr'', entry_required = None\<rparr>)]"]
  by (simp add: unique_def)

subsection \<open>Required variables\<close>

lemma required_loop_closed:
  "required_loop iter df variable_config vs (valid, lg) =
     (valid \<and> (\<forall>v\<in>set vs. is_required variable_config v \<longrightarrow>
                  missing_models df v = [] \<and> missing_scenarios df v = []),
      lg @ concat (map (required_report iter df variable_config) vs))"
proof (induction vs arbitrary: valid lg)
  case Nil
  then show ?case by simp
next
  case (Cons v vs)
  show ?case
  proof (cases "map_of variable_config v")
    case None
    then show ?thesis
      by (simp add: Cons.IH is_required_def required_report_def)
  next
    case (Some e)
    show ?thesis
    proof (cases "is_required variable_config v")
      case False
      with Some show ?thesis
        by (auto simp: Cons.IH is_required_def required_report_def split: option.splits)
    next
      case True
      with Some have req: "(case entry_required e of None \<Rightarrow> False | Some b \<Rightarrow> b)"
        by (simp add: is_required_def)
      show ?thesis
        using Some req True
        by (auto simp: Cons.IH Let_def required_report_def
            missing_models_def [symmetric] missing_scenarios_def [symmetric])
    qed
  qed
qed

lemma missing_models_Nil:
  "missing_models df v = [] \<longleftrightarrow>
     (\<forall>m\<in>set (unique (map model df)). \<exists>r\<in>set df. variable r = v \<and> model r = m)"
proof -
  have "set (map model (filter (\<lambda>r. variable r = v) df)) = {m. \<exists>r\<in>set df. variable r = v \<and> model r = m}"
    by auto
  then show ?thesis
    unfolding missing_models_def set_diff_eq_Nil set_unique by blast
qed

lemma missing_scenarios_Nil:
  "missing_scenarios df v = [] \<longleftrightarrow>
     (\<forall>s\<in>set (unique (map scenario df)). \<exists>r\<in>set df. variable r = v \<and> scenario r = s)"
proof -
  have "set (map scenario (filter (\<lambda>r. variable r = v) df)) = {m. \<exists>r\<in>set df. variable r = v \<and> scenario r = m}"
    by auto
  then show ?thesis
    unfolding missing_scenarios_def set_diff_eq_Nil set_unique by blast
qed

lemma is_required_key: "is_required variable_config v \<Longrightarrow> v \<in> set (map fst variable_config)"
  by (auto simp: is_required_def split: option.splits dest: map_of_SomeD intro: rev_image_eqI)

text \<open>
  C3: \<^verbatim>\<open>validate_required_variables\<close> returns true exactly when, for every
  variable whose entry is marked required, every distinct model and every distinct
  scenario of the dataset has a row for that variable. Its log is, between the two
  debug records, the reports of the configured variables in order, each required
  variable checked whatever the earlier ones gave; a variable with missing models has
  one warning "Following models miss required variable v: " followed by the
  comma-joined missing models.
\<close>

theorem validate_required_variables_iff:
  "(fst (validate_required_variables iter df variable_config) =
      (\<forall>v. is_required variable_config v \<longrightarrow>
         (\<forall>m\<in>set (unique (map model df)). \<exists>r\<in>set df. variable r = v \<and> model r = m)
       \<and> (\<forall>s\<in>set (unique (map scenario df)). \<exists>r\<in>set df. variable r = v \<and> scenario r = s)))
   \<and> snd (validate_required_variables iter df variable_config) =
       [(DEBUG, ''Start required variables validation'')]
       @ concat (map (required_report iter df variable_config) (map fst variable_config))
       @ [(DEBUG, ''Finish required variables validation'')]
   \<and> (\<forall>v. is_required variable_config v \<and> missing_models df v \<noteq> [] \<longrightarrow>
        (WARNING, ''Following models miss required variable '' @ v @ '': ''
           @ join '', '' (iter (missing_models df v)))
        \<in> set (snd (validate_required_variables iter df variable_config)))"
proof (intro conjI)
  show "fst (validate_required_variables iter df variable_config) =
      (\<forall>v. is_required variable_config v \<longrightarrow>
         (\<forall>m\<in>set (unique (map model df)). \<exists>r\<in>set df. variable r = v \<and> model r = m)
       \<and> (\<forall>s\<in>set (unique (map scenario df)). \<exists>r\<in>set df. variable r = v \<and> scenario r = s))"
    unfolding missing_models_Nil [symmetric] missing_scenarios_Nil [symmetric]
      validate_required_variables_def Let_def required_loop_closed fst_conv
    using is_required_key [of variable_config] by blast
  show log: "snd (validate_required_variables iter df variable_config) =
       [(DEBUG, ''Start required variables validation'')]
       @ concat (map (required_report iter df variable_config) (map fst variable_config))
       @ [(DEBUG, ''Finish required variables validation'')]"
    by (simp add: validate_required_variables_def required_loop_closed Let_def)
  show "\<forall>v. is_required variable_config v \<and> missing_models df v \<noteq> [] \<longrightarrow>
        (WARNING, ''Following models miss required variable '' @ v @ '': ''
           @ join '', '' (iter (missing_models df v)))
        \<in> set (snd (validate_required_variables iter df variable_config))"
  proof (intro allI impI)
    fix v assume a: "is_required variable_config v \<and> missing_models df v \<noteq> []"
    then have "v \<in> set (map fst variable_config)" using is_required_key by blast
    moreover have "(WARNING, ''Following models miss required variable '' @ v @ '': ''
           @ join '', '' (iter (missing_models df v))) \<in> set (required_report iter df variable_config v)"
      using a by (simp add: required_report_def)
    ultimately show "(WARNING, ''Following models miss required variable '' @ v @ '': ''
           @ join '', '' (iter (missing_models df v)))
        \<in> set (snd (validate_required_variables iter df variable_config))"
      unfolding log by auto
  qed
qed

theorem validate_required_variables_iff_witness:
  "fst (validate_required_variables id sample_timeseries sample_variable_config) = False
   \<and> (WARNING, ''Following models miss required variable Emissions|CO2: invalid_model'')
       \<in> set (snd (validate_required_variables id sample_timeseries sample_variable_config))"
proof -
  note t = validate_required_variables_iff [of id sample_timeseries sample_variable_config]
  have req: "is_required sample_variable_config ''Emissions|CO2''"
    by code_simp
  have mm: "missing_models sample_timeseries ''Emissions|CO2'' = [''invalid_model'']"
    by code_simp
  have nn: "\<not> (\<forall>m\<in>set (unique (map model sample_timeseries)).
          \<exists>r\<in>set sample_timeseries. variable r = ''Emissions|CO2'' \<and> model r = m)"
    using mm unfolding missing_models_Nil [symmetric] by simp
  from t have t1: "fst (validate_required_variables id sample_timeseries sample_variable_config) =
      (\<forall>v. is_required sample_variable_config v \<longrightarrow>
         (\<forall>m\<in>set (unique (map model sample_timeseries)). \<exists>r\<in>set sample_timeseries. variable r = v \<and> model r = m)
       \<and> (\<forall>s\<in>set (unique (map scenario sample_timeseries)). \<exists>r\<in>set sample_timeseries. variable r = v \<and> scenario r = s))"
    by (rule conjunct1)
  have a: "fst (validate_required_variables id sample_timeseries sample_variable_config)
      = False"
    unfolding t1 using req nn by blast
  from t have t3: "\<forall>v. is_required sample_variable_config v \<and> missing_models sample_timeseries v \<noteq> [] \<longrightarrow>
        (WARNING, ''Following models miss required variable '' @ v @ '': ''
           @ join '', '' (id (missing_models sample_timeseries v)))
        \<in> set (snd (validate_required_variables id sample_timeseries sample_variable_config))"
    by (rule conjunct2 [THEN conjunct2])
  have "(WARNING, ''Following models miss required variable '' @ ''Emissions|CO2'' @ '': ''
           @ join '', '' (id (missing_models sample_timeseries ''Emissions|CO2'')))
       \<in> set (snd (validate_required_variables id sample_timeseries sample_variable_config))"
    using t3 req mm by (metis list.distinct(1))
  then have b: "(WARNING, ''Following models miss required variable Emissions|CO2: invalid_model'')
       \<in> set (snd (validate_required_variables id sample_timeseries sample_variable_config))"
    unfolding mm by simp
  from a b show ?thesis by (rule conjI)
qed

subsection \<open>Allowed scenarios\<close>

lemma is_substring_append: "is_substring s (s @ t)"
  unfolding is_substring_def list_ex_iff
  by (rule bexI [of _ 0]) simp_all

lemma log_containsI: "(lvl, s @ t) \<in> set lg \<Longrightarrow> log_contains lg s"
  unfolding log_contains_def list_ex_iff
  by (rule bexI [of _ "(lvl, s @ t)"]) (simp_all add: is_substring_append)

lemma set_order_take:
  assumes "set_order iter" and "length xs \<le> n"
  shows "set (take n (iter xs)) = set xs"
  using assms by (simp add: set_order_def)

text \<open>
  C4, as the code has it: with an empty allow-list, on every dataset that contains the
  scenario \<open>valid_scenario\<close>, \<^verbatim>\<open>validate_allowed_scenarios\<close> returns false and
  the first record of the log is the heading "Scenario(s) not allowed:"; when the
  dataset has at most 100 distinct scenarios, the log has the record of the bulleted
  line "- valid_scenario".
\<close>

theorem validate_allowed_scenarios_empty_list:
  assumes "''valid_scenario'' \<in> set (map scenario df)"
  shows "fst (validate_allowed_scenarios iter df []) = False
    \<and> hd (snd (validate_allowed_scenarios iter df [])) = (WARNING, ''Scenario(s) not allowed:'')
    \<and> (WARNING, ''Scenario(s) not allowed:'') \<in> set (snd (validate_allowed_scenarios iter df []))
    \<and> log_contains (snd (validate_allowed_scenarios iter df [])) ''Scenario(s) not allowed''
    \<and> (set_order iter \<and> length (unique (map scenario df)) \<le> 100 \<longrightarrow>
         (WARNING, ''- valid_scenario'') \<in> set (snd (validate_allowed_scenarios iter df [])))"
proof -
  let ?scenarios = "unique (map scenario df)"
  let ?log = "log_validation_errors ''Scenario(s) not allowed'' (iter ?scenarios) WARNING 100"
  have unknown: "set_diff ?scenarios [] = ?scenarios"
    by (simp add: set_diff_def)
  from assms have ne: "?scenarios \<noteq> []" by auto
  have res: "validate_allowed_scenarios iter df [] = (False, ?log)"
    using ne by (simp add: validate_allowed_scenarios_def unknown Let_def)
  have first: "hd ?log = (WARNING, ''Scenario(s) not allowed:'')"
    by (simp add: log_validation_errors_def)
  have head: "(WARNING, ''Scenario(s) not allowed'' @ '':'') \<in> set ?log"
    by (simp add: log_validation_errors_def)
  have bullet: "(WARNING, ''- valid_scenario'') \<in> set ?log"
    if ord: "set_order iter" and few: "length ?scenarios \<le> 100"
  proof -
    have "''valid_scenario'' \<in> set (take 100 (iter ?scenarios))"
      using set_order_take [OF ord few] assms by simp
    then have "''valid_scenario'' \<in> set (slice_to (iter ?scenarios) 100)"
      by (simp add: slice_to_def)
    then show ?thesis
      by (simp add: log_validation_errors_def image_iff)
  qed
  show ?thesis
    unfolding res fst_conv snd_conv
    using first head log_containsI [OF head] bullet by simp
qed

theorem validate_allowed_scenarios_empty_list_witness:
  "fst (validate_allowed_scenarios id sample_timeseries []) = False
    \<and> hd (snd (validate_allowed_scenarios id sample_timeseries []))
        = (WARNING, ''Scenario(s) not allowed:'')
    \<and> (WARNING, ''- valid_scenario'')
        \<in> set (snd (validate_allowed_scenarios id sample_timeseries []))"
proof -
  have 1: "set_order id" by (simp add: set_order_def)
  have 2: "''valid_scenario'' \<in> set (map scenario sample_timeseries)"
    by (simp add: sample_timeseries_def mk_row_def)
  have 3: "length (unique (map scenario sample_timeseries)) \<le> 100"
    by (simp add: sample_timeseries_def mk_row_def unique_def)
  from validate_allowed_scenarios_empty_list [OF 2, of id] 1 3
  show ?thesis by blast
qed

text \<open>
  On a dataset whose only scenario is \<open>valid_scenario\<close> the empty allow-list makes
  that scenario unknown, and its bullet is logged: the log is not free of
  "- valid_scenario".
\<close>

theorem validate_allowed_scenarios_logs_bullet:
  "\<not> (fst (validate_allowed_scenarios id
            [mk_row ''model'' ''valid_scenario'' ''World'' ''Emissions|CO2'' ''Mt CO2/yr''] [])
          = False
      \<and> log_contains (snd (validate_allowed_scenarios id
            [mk_row ''model'' ''valid_scenario'' ''World'' ''Emissions|CO2'' ''Mt CO2/yr''] []))
          ''Scenario(s) not allowed''
      \<and> \<not> log_contains (snd (validate_allowed_scenarios id
            [mk_row ''model'' ''valid_scenario'' ''World'' ''Emissions|CO2'' ''Mt CO2/yr''] []))
          ''- valid_scenario'')"
proof -
  have "validate_allowed_scenarios id
            [mk_row ''model'' ''valid_scenario'' ''World'' ''Emissions|CO2'' ''Mt CO2/yr''] []
      = (False, [(WARNING, ''Scenario(s) not allowed:''), (WARNING, ''- valid_scenario'')])"
    by (simp add: validate_allowed_scenarios_def mk_row_def unique_def set_diff_def
        log_validation_errors_def slice_to_def)
  moreover have "log_contains [(WARNING, ''Scenario(s) not allowed:''), (WARNING, ''- valid_scenario'')]
      ''- valid_scenario''"
    by (rule log_containsI [of WARNING _ "[]"]) simp
  ultimately show ?thesis by simp
qed

subsection \<open>The unit batch\<close>

lemma units_loop_closed:
  "units_loop df variable_config vs (valid, acc) =
     (fst (units_loop df variable_config vs (valid, acc)),
      acc @ concat (map (unit_report df variable_config) vs))"
proof (induction vs arbitrary: valid acc)
  case Nil
  then show ?case by simp
next
  case (Cons v vs)
  show ?case
  proof (cases "map_of variable_config v")
    case None
    then show ?thesis
      using Cons.IH [of valid acc] by (simp add: unit_report_def)
  next
    case (Some e)
    let ?us = "unique (map unit (filter (\<lambda>r. variable r = v \<and> unit r \<noteq> entry_unit e) df))"
    show ?thesis
    proof (cases "?us = []")
      case True
      then show ?thesis
        using Some Cons.IH [of valid acc] by (simp add: unit_report_def)
    next
      case False
      then have "0 < length ?us" by simp
      then show ?thesis
        using Some False Cons.IH [of False "acc @ [v @ '': '' @ join '', '' ?us]"]
        by (simp add: unit_report_def Let_def del: unique_eq_Nil length_greater_0_conv)
    qed
  qed
qed

lemma units_loop_lines:
  "snd (units_loop df variable_config (map fst variable_config) (valid, [])) =
     unknown_unit_lines df variable_config"
  by (subst units_loop_closed) (simp add: unknown_unit_lines_def)

lemma validate_variables_and_units_log:
  "snd (validate_variables_and_units iter df variable_config) =
     [(DEBUG, ''Start variables/units validation'')]
     @ (if set_diff (unique (map variable df)) (map fst variable_config) = [] then []
        else log_validation_errors ''Unknown variable(s)''
               (iter (set_diff (unique (map variable df)) (map fst variable_config))) WARNING 100)
     @ (if unknown_unit_lines df variable_config = [] then []
        else log_validation_errors ''Unknown unit(s) for variable(s):''
               (unknown_unit_lines df variable_config) WARNING 100)
     @ [(DEBUG, ''Finish variables/units validation'')]"
  by (simp add: validate_variables_and_units_def Let_def units_loop_lines)

lemma unit_report_mismatch:
  assumes "r \<in> set df" and "map_of variable_config (variable r) = Some e"
    and "unit r \<noteq> entry_unit e"
  shows "unit_report df variable_config (variable r) \<noteq> []"
proof -
  have "r \<in> set (filter (\<lambda>r'. variable r' = variable r \<and> unit r' \<noteq> entry_unit e) df)"
    using assms by simp
  then have "filter (\<lambda>r'. variable r' = variable r \<and> unit r' \<noteq> entry_unit e) df \<noteq> []"
    by (metis empty_iff empty_set)
  then show ?thesis
    using assms(2) by (simp add: unit_report_def Let_def)
qed

lemma unknown_unit_lines_mismatch:
  assumes "r \<in> set df" and "map_of variable_config (variable r) = Some e"
    and "unit r \<noteq> entry_unit e"
  shows "unknown_unit_lines df variable_config \<noteq> []"
proof -
  from assms(2) have "variable r \<in> set (map fst variable_config)"
    by (metis map_of_eq_None_iff option.distinct(1) set_map)
  then have "unit_report df variable_config (variable r)
      \<in> unit_report df variable_config ` set (map fst variable_config)"
    by (rule imageI)
  then have "unit_report df variable_config (variable r)
      \<in> set (map (unit_report df variable_config) (map fst variable_config))"
    by (simp only: set_map)
  then show ?thesis
    unfolding unknown_unit_lines_def concat_eq_Nil_conv
    using unit_report_mismatch [OF assms] by blast
qed

text \<open>
  C9, as the code has it: when some row of a configured variable carries another unit,
  the unit mismatches are reported as one batch at the end of the log, before the
  closing debug record: a heading that starts with "Unknown unit(s) for variable(s)",
  then one bullet for each of the first 100 accumulated strings
  "variable: comma-joined mismatched units" in configuration order, then the line
  "and N more..." when more than 100 were accumulated.
\<close>

theorem validate_variables_and_units_unit_batch:
  assumes "r \<in> set df" and "map_of variable_config (variable r) = Some e"
    and "unit r \<noteq> entry_unit e"
  shows "\<exists>before rest.
     snd (validate_variables_and_units iter df variable_config) =
       before
       @ [(WARNING, ''Unknown unit(s) for variable(s)'' @ rest)]
       @ map (\<lambda>line. (WARNING, ''- '' @ line)) (take 100 (unknown_unit_lines df variable_config))
       @ (if length (unknown_unit_lines df variable_config) > 100
          then [(WARNING, ''and ''
                  @ str_int (int (length (unknown_unit_lines df variable_config)) - 100)
                  @ '' more...'')]
          else [])
       @ [(DEBUG, ''Finish variables/units validation'')]
     \<and> before =
        [(DEBUG, ''Start variables/units validation'')]
        @ (if set_diff (unique (map variable df)) (map fst variable_config) = [] then []
           else log_validation_errors ''Unknown variable(s)''
               (iter (set_diff (unique (map variable df)) (map fst variable_config))) WARNING 100)"
proof -
  have ne: "unknown_unit_lines df variable_config \<noteq> []"
    by (rule unknown_unit_lines_mismatch [OF assms])
  show ?thesis
    apply (rule exI [of _ "[(DEBUG, ''Start variables/units validation'')]
        @ (if set_diff (unique (map variable df)) (map fst variable_config) = [] then []
           else log_validation_errors ''Unknown variable(s)''
               (iter (set_diff (unique (map variable df)) (map fst variable_config))) WARNING 100)"])
    apply (rule exI [of _ "''::''"])
    apply (simp add: validate_variables_and_units_log ne log_validation_errors_def slice_to_def)
    done
qed

theorem validate_variables_and_units_unit_batch_witness:
  "\<exists>before rest.
     snd (validate_variables_and_units id sample_timeseries sample_variable_config) =
       before @ [(WARNING, ''Unknown unit(s) for variable(s)'' @ rest),
                 (WARNING, ''- Emissions|CO2: kt CO2/yr''),
                 (DEBUG, ''Finish variables/units validation'')]"
proof -
  let ?r = "mk_row ''model'' ''invalid_scenario'' ''Unknown country'' ''Emissions|CO2'' ''kt CO2/yr''"
  let ?e = "\<lparr>entry_unit = ''Mt CO2/yr'', entry_required = Some True\<rparr>"
  have 1: "?r \<in> set sample_timeseries" by (simp add: sample_timeseries_def)
  have 2: "map_of sample_variable_config (variable ?r) = Some ?e"
    by (simp add: sample_variable_config_def mk_row_def)
  have 3: "unit ?r \<noteq> entry_unit ?e" by (simp add: mk_row_def)
  have lines: "unknown_unit_lines sample_timeseries sample_variable_config
      = [''Emissions|CO2: kt CO2/yr'']"
    by (simp add: unknown_unit_lines_def unit_report_def sample_variable_config_def
        sample_timeseries_def mk_row_def unique_def)
  from validate_variables_and_units_unit_batch [OF 1 2 3, of id]
  obtain before rest where
    "snd (validate_variables_and_units id sample_timeseries sample_variable_config) =
       before @ [(WARNING, ''Unknown unit(s) for variable(s)'' @ rest)]
       @ map (\<lambda>line. (WARNING, ''- '' @ line))
           (take 100 (unknown_unit_lines sample_timeseries sample_variable_config))
       @ (if length (unknown_unit_lines sample_timeseries sample_variable_config) > 100
          then [(WARNING, ''and ''
                  @ str_int (int (length (unknown_unit_lines sample_timeseries sample_variable_config)) - 100)
                  @ '' more...'')]
          else [])
       @ [(DEBUG, ''Finish variables/units validation'')]"
    by blast
  then have "snd (validate_variables_and_units id sample_timeseries sample_variable_config) =
       before @ [(WARNING, ''Unknown unit(s) for variable(s)'' @ rest),
                 (WARNING, ''- Emissions|CO2: kt CO2/yr''),
                 (DEBUG, ''Finish variables/units validation'')]"
    unfolding lines by simp
  then show ?thesis by blast
qed

lemma unique_constant:
  assumes "xs \<noteq> []" and "set xs \<subseteq> {x}"
  shows "unique xs = [x]"
proof -
  have s: "set (unique xs) = {x}" using assms by (cases xs) auto
  have d: "distinct (unique xs)" by simp
  show ?thesis
  proof (cases "unique xs")
    case Nil
    with s show ?thesis by simp
  next
    case (Cons y ys)
    with s d have "y = x" "ys = []"
      by (auto simp: subset_singleton_iff)
    with Cons show ?thesis by simp
  qed
qed


lemma map_of_constant:
  "v \<in> set ns \<Longrightarrow> map_of (map (\<lambda>n. (n, e)) ns) v = Some e"
  by (induction ns) auto

lemma unit_report_many:
  assumes "v \<in> set many_names"
  shows "unit_report many_timeseries many_variable_config v = [v @ '': x'']"
proof -
  let ?f = "\<lambda>n. mk_row ''model'' ''scenario'' ''World'' n ''x''"
  let ?rows = "filter (\<lambda>r. variable r = v \<and> unit r \<noteq> ''u'') many_timeseries"
  have cfg: "map_of many_variable_config v = Some \<lparr>entry_unit = ''u'', entry_required = None\<rparr>"
    unfolding many_variable_config_def using assms by (rule map_of_constant)
  have "?f v \<in> set ?rows"
    using assms by (simp add: many_timeseries_def mk_row_def)
  then have "?rows \<noteq> []" by (metis empty_iff empty_set)
  then have ne: "map unit ?rows \<noteq> []" by simp
  have "set (map unit ?rows) \<subseteq> {''x''}"
    by (auto simp: many_timeseries_def mk_row_def)
  with ne have "unique (map unit ?rows) = [''x'']" by (rule unique_constant)
  then show ?thesis
    by (simp add: unit_report_def cfg)
qed

lemma unknown_unit_lines_many:
  "unknown_unit_lines many_timeseries many_variable_config = map (\<lambda>v. v @ '': x'') many_names"
proof -
  have keys: "map fst many_variable_config = many_names"
    by (simp add: many_variable_config_def comp_def)
  have e: "map (unit_report many_timeseries many_variable_config) many_names
      = map (\<lambda>v. [v @ '': x'']) many_names"
    by (rule map_cong [OF refl]) (rule unit_report_many)
  show ?thesis
    unfolding unknown_unit_lines_def keys e by (rule concat_map_singleton)
qed

lemma many_names_take: "take 100 many_names = map (\<lambda>n. replicate (Suc n) CHR ''v'') [0..<100]"
  by (simp add: many_names_def take_map)

lemma many_log:
  "snd (validate_variables_and_units id many_timeseries many_variable_config) =
     [(DEBUG, ''Start variables/units validation''),
      (WARNING, ''Unknown unit(s) for variable(s)::'')]
     @ map (\<lambda>n. (WARNING, ''- '' @ replicate (Suc n) CHR ''v'' @ '': x'')) [0..<100]
     @ [(WARNING, ''and 1 more...''),
        (DEBUG, ''Finish variables/units validation'')]"
proof -
  have keys: "map fst many_variable_config = many_names"
    by (simp add: many_variable_config_def comp_def)
  have vars: "map variable many_timeseries = many_names"
    by (simp add: many_timeseries_def mk_row_def comp_def)
  have known: "set_diff (unique (map variable many_timeseries)) (map fst many_variable_config) = []"
    by (simp add: set_diff_eq_Nil keys vars)
  have len: "length many_names = 101" by (simp add: many_names_def)
  then have ne: "many_names \<noteq> []" by auto
  have one: "str_int 1 = ''1''"
    by (simp add: str_int_def str_nat.simps digit_char_def)
  show ?thesis
    by (simp add: validate_variables_and_units_log known unknown_unit_lines_many len ne
        log_validation_errors_def slice_to_def take_map many_names_take one comp_def)
qed

text \<open>
  With 101 configured variables that all have a mismatched unit, the 101st accumulated
  string has no bullet in the log, and no record of the log is the heading with a
  single colon: the call passes the heading with its own colon and the reporter adds
  a second one.
\<close>

theorem unit_batch_heading_and_truncation:
  "replicate 101 CHR ''v'' @ '': x'' \<in> set (unknown_unit_lines many_timeseries many_variable_config)
   \<and> (WARNING, ''- '' @ replicate 101 CHR ''v'' @ '': x'')
       \<notin> set (snd (validate_variables_and_units id many_timeseries many_variable_config))
   \<and> (WARNING, ''Unknown unit(s) for variable(s):'')
       \<notin> set (snd (validate_variables_and_units id many_timeseries many_variable_config))"
proof (intro conjI)
  have "replicate (Suc 100) CHR ''v'' \<in> set many_names"
    unfolding many_names_def by (simp only: set_map set_upt) (rule imageI, simp)
  then show "replicate 101 CHR ''v'' @ '': x''
      \<in> set (unknown_unit_lines many_timeseries many_variable_config)"
    unfolding unknown_unit_lines_many by (simp add: image_iff)
  have neq: "replicate 101 CHR ''v'' \<noteq> replicate (Suc n) CHR ''v''" if "n < 100" for n
  proof
    assume "replicate 101 CHR ''v'' = replicate (Suc n) CHR ''v''"
    then have "length (replicate 101 CHR ''v'') = length (replicate (Suc n) CHR ''v'')"
      by (rule arg_cong)
    with that show False by simp
  qed
  show "(WARNING, ''- '' @ replicate 101 CHR ''v'' @ '': x'')
       \<notin> set (snd (validate_variables_and_units id many_timeseries many_variable_config))"
    unfolding many_log using neq by (auto simp del: replicate.simps)
  show "(WARNING, ''Unknown unit(s) for variable(s):'')
       \<notin> set (snd (validate_variables_and_units id many_timeseries many_variable_config))"
    unfolding many_log by auto
qed

subsection \<open>Resolving a region mapping\<close>

lemma search_mapping_None:
  "search_mapping fs p m fns = None \<longleftrightarrow> \<not> (\<exists>fn\<in>set fns. is_mapping_file fs p m fn)"
  by (induction fns) (auto simp: is_mapping_file_def Let_def)

lemma search_mapping_first:
  assumes "\<exists>fn\<in>set fns. is_mapping_file fs p m fn"
  shows "\<exists>pre fn post. fns = pre @ fn # post \<and> is_mapping_file fs p m fn
          \<and> (\<forall>f\<in>set pre. \<not> is_mapping_file fs p m f)
          \<and> search_mapping fs p m fns = Some (yaml_load fs (path_join p fn))"
  using assms
proof (induction fns)
  case Nil
  then show ?case by simp
next
  case (Cons f fns)
  show ?case
  proof (cases "is_mapping_file fs p m f")
    case True
    then have "search_mapping fs p m (f # fns) = Some (yaml_load fs (path_join p f))"
      by (auto simp: is_mapping_file_def Let_def)
    with True have "f # fns = [] @ f # fns \<and> is_mapping_file fs p m f
          \<and> (\<forall>f'\<in>set []. \<not> is_mapping_file fs p m f')
          \<and> search_mapping fs p m (f # fns) = Some (yaml_load fs (path_join p f))"
      by simp
    then show ?thesis by blast
  next
    case False
    with Cons.prems have "\<exists>fn\<in>set fns. is_mapping_file fs p m fn" by auto
    from Cons.IH [OF this] obtain pre fn post where
      h: "fns = pre @ fn # post" "is_mapping_file fs p m fn"
         "\<forall>f\<in>set pre. \<not> is_mapping_file fs p m f"
         "search_mapping fs p m fns = Some (yaml_load fs (path_join p fn))"
      by blast
    from False have skip: "search_mapping fs p m (f # fns) = search_mapping fs p m fns"
      by (auto simp: is_mapping_file_def Let_def)
    have "f # fns = (f # pre) @ fn # post \<and> is_mapping_file fs p m fn
          \<and> (\<forall>f'\<in>set (f # pre). \<not> is_mapping_file fs p m f')
          \<and> search_mapping fs p m (f # fns) = Some (yaml_load fs (path_join p fn))"
      using h False skip by simp
    then show ?thesis by blast
  qed
qed

lemma is_substring_middle: "is_substring s (a @ s @ b)"
  unfolding is_substring_def list_ex_iff
  by (rule bexI [of _ "length a"]) simp_all

text \<open>
  C6: \<^verbatim>\<open>get_region_mapping\<close> raises the error (after logging it) when the path is
  not a directory. For a directory it raises exactly when no listed file with a
  recognised extension has the requested model in its document, and the error then
  carries the message naming the model and the path; when some file matches, the
  document of the first match in listing order is returned.
\<close>

theorem get_region_mapping_result:
  "(\<not> isdir fs p \<longrightarrow>
      get_region_mapping fs p m =
        ([(ERROR, ''Directory containing region mappings does not exists: '' @ p)],
         Inl (IxmpServerWorkflowError
                (''Directory containing region mappings does not exists: '' @ p))))
   \<and> (isdir fs p \<longrightarrow>
        ((\<exists>err. snd (get_region_mapping fs p m) = Inl err)
           \<longleftrightarrow> \<not> (\<exists>fn\<in>set (listdir fs p). is_mapping_file fs p m fn))
      \<and> ((\<exists>err. snd (get_region_mapping fs p m) = Inl err) \<longrightarrow>
           get_region_mapping fs p m =
             ([], Inl (IxmpServerWorkflowError
                (''No region mapping found for model \"'' @ m @ ''\" in path \"'' @ p @ ''\"'')))
           \<and> is_substring m
                (''No region mapping found for model \"'' @ m @ ''\" in path \"'' @ p @ ''\"'')
           \<and> is_substring p
                (''No region mapping found for model \"'' @ m @ ''\" in path \"'' @ p @ ''\"''))
      \<and> ((\<exists>fn\<in>set (listdir fs p). is_mapping_file fs p m fn) \<longrightarrow>
           (\<exists>pre fn post. listdir fs p = pre @ fn # post \<and> is_mapping_file fs p m fn
              \<and> (\<forall>f\<in>set pre. \<not> is_mapping_file fs p m f)
              \<and> get_region_mapping fs p m = ([], Inr (yaml_load fs (path_join p fn))))))"
proof (intro conjI impI)
  assume "\<not> isdir fs p"
  then show "get_region_mapping fs p m =
        ([(ERROR, ''Directory containing region mappings does not exists: '' @ p)],
         Inl (IxmpServerWorkflowError
                (''Directory containing region mappings does not exists: '' @ p)))"
    by (simp add: get_region_mapping_def Let_def)
next
  assume d: "isdir fs p"
  show "(\<exists>err. snd (get_region_mapping fs p m) = Inl err)
           \<longleftrightarrow> \<not> (\<exists>fn\<in>set (listdir fs p). is_mapping_file fs p m fn)"
    unfolding search_mapping_None [symmetric]
    using d by (simp add: get_region_mapping_def split: option.splits)
next
  assume d: "isdir fs p" and e: "\<exists>err. snd (get_region_mapping fs p m) = Inl err"
  show "get_region_mapping fs p m =
             ([], Inl (IxmpServerWorkflowError
                (''No region mapping found for model \"'' @ m @ ''\" in path \"'' @ p @ ''\"'')))"
    using d e by (simp add: get_region_mapping_def not_found_message_def split: option.splits)
  show "is_substring m
                (''No region mapping found for model \"'' @ m @ ''\" in path \"'' @ p @ ''\"'')"
    by (rule is_substring_middle)
  have "is_substring p
      ((''No region mapping found for model \"'' @ m @ ''\" in path \"'') @ p @ ''\"'')"
    by (rule is_substring_middle)
  then show "is_substring p
                (''No region mapping found for model \"'' @ m @ ''\" in path \"'' @ p @ ''\"'')"
    by simp
next
  assume d: "isdir fs p" and ex: "\<exists>fn\<in>set (listdir fs p). is_mapping_file fs p m fn"
  from search_mapping_first [OF ex] obtain pre fn post where
    h: "listdir fs p = pre @ fn # post" "is_mapping_file fs p m fn"
       "\<forall>f\<in>set pre. \<not> is_mapping_file fs p m f"
       "search_mapping fs p m (listdir fs p) = Some (yaml_load fs (path_join p fn))"
    by blast
  from d h(4) have "get_region_mapping fs p m = ([], Inr (yaml_load fs (path_join p fn)))"
    by (simp add: get_region_mapping_def)
  with h show "\<exists>pre fn post. listdir fs p = pre @ fn # post \<and> is_mapping_file fs p m fn
              \<and> (\<forall>f\<in>set pre. \<not> is_mapping_file fs p m f)
              \<and> get_region_mapping fs p m = ([], Inr (yaml_load fs (path_join p fn)))"
    by blast
qed


theorem get_region_mapping_result_witness:
  "get_region_mapping sample_filesystem ''nowhere'' ''model'' =
     ([(ERROR, ''Directory containing region mappings does not exists: nowhere'')],
      Inl (IxmpServerWorkflowError
             ''Directory containing region mappings does not exists: nowhere''))
   \<and> get_region_mapping sample_filesystem ''region_mapping'' ''invalid_model'' =
       ([], Inl (IxmpServerWorkflowError
          ''No region mapping found for model \"invalid_model\" in path \"region_mapping\"''))
   \<and> (\<exists>pre fn post. listdir sample_filesystem ''region_mapping'' = pre @ fn # post
         \<and> get_region_mapping sample_filesystem ''region_mapping'' ''model'' =
             ([], Inr (yaml_load sample_filesystem (path_join ''region_mapping'' fn))))"
proof (intro conjI)
  have nodir: "\<not> isdir sample_filesystem ''nowhere''"
    by (simp add: sample_filesystem_def)
  with get_region_mapping_result [of sample_filesystem "''nowhere''" "''model''"]
  show "get_region_mapping sample_filesystem ''nowhere'' ''model'' =
     ([(ERROR, ''Directory containing region mappings does not exists: nowhere'')],
      Inl (IxmpServerWorkflowError
             ''Directory containing region mappings does not exists: nowhere''))"
    by simp
  have dir: "isdir sample_filesystem ''region_mapping''"
    by (simp add: sample_filesystem_def)
  have none: "\<not> (\<exists>fn\<in>set (listdir sample_filesystem ''region_mapping'').
      is_mapping_file sample_filesystem ''region_mapping'' ''invalid_model'' fn)"
    by (simp add: sample_filesystem_def is_mapping_file_def endswith_def path_join_def)
  from get_region_mapping_result [of sample_filesystem "''region_mapping''" "''invalid_model''"]
    dir none
  have "get_region_mapping sample_filesystem ''region_mapping'' ''invalid_model'' =
       ([], Inl (IxmpServerWorkflowError
          (''No region mapping found for model \"'' @ ''invalid_model'' @ ''\" in path \"''
             @ ''region_mapping'' @ ''\"'')))"
    by blast
  then show "get_region_mapping sample_filesystem ''region_mapping'' ''invalid_model'' =
       ([], Inl (IxmpServerWorkflowError
          ''No region mapping found for model \"invalid_model\" in path \"region_mapping\"''))"
    by simp
  have some: "\<exists>fn\<in>set (listdir sample_filesystem ''region_mapping'').
      is_mapping_file sample_filesystem ''region_mapping'' ''model'' fn"
    by (simp add: sample_filesystem_def is_mapping_file_def endswith_def path_join_def)
  from get_region_mapping_result [of sample_filesystem "''region_mapping''" "''model''"]
    dir some
  show "\<exists>pre fn post. listdir sample_filesystem ''region_mapping'' = pre @ fn # post
         \<and> get_region_mapping sample_filesystem ''region_mapping'' ''model'' =
             ([], Inr (yaml_load sample_filesystem (path_join ''region_mapping'' fn)))"
    by blast
qed

subsection \<open>Region mappings of a dataset\<close>

lemma region_loop_closed:
  "region_loop iter fs df p ms (valid, lg) =
     (valid \<and> (\<forall>m\<in>set ms. \<exists>rm. snd (get_region_mapping fs p m) = Inr rm
                  \<and> set_diff (model_regions df m) (valid_region_names rm) = []),
      lg @ concat (map (model_report iter fs df p) ms))"
proof (induction ms arbitrary: valid lg)
  case Nil
  then show ?case by simp
next
  case (Cons m ms)
  obtain glog res where g: "get_region_mapping fs p m = (glog, res)"
    by (cases "get_region_mapping fs p m")
  show ?case
  proof (cases res)
    case (Inl err)
    with g show ?thesis
      by (simp add: Cons.IH model_report_def)
  next
    case (Inr rm)
    show ?thesis
    proof (cases "set_diff (model_regions df m) (valid_region_names rm) = []")
      case True
      with g Inr show ?thesis
        by (simp add: Cons.IH model_report_def Let_def
            model_regions_def [symmetric] valid_region_names_def [symmetric])
    next
      case False
      with g Inr show ?thesis
        by (simp add: Cons.IH model_report_def Let_def
            model_regions_def [symmetric] valid_region_names_def [symmetric])
    qed
  qed
qed

text \<open>
  C2: \<^verbatim>\<open>validate_region_mappings\<close> returns true exactly when the dataset has a
  model and, for every distinct model, the resolver returns a mapping and every
  distinct region of that model's rows is a key of its native regions, a key of its
  region aggregation, or "World".
\<close>

theorem validate_region_mappings_iff:
  "fst (validate_region_mappings iter fs df p) =
     (unique (map model df) \<noteq> []
      \<and> (\<forall>m\<in>set (unique (map model df)).
           \<exists>rm. snd (get_region_mapping fs p m) = Inr rm
             \<and> (\<forall>g\<in>set (unique (map region (filter (\<lambda>r. model r = m) df))).
                   g \<in> set (map fst (native_regions rm))
                   \<or> g \<in> set (map fst (region_aggregation rm))
                   \<or> g = ''World'')))"
proof -
  have ok: "(set_diff (model_regions df m) (valid_region_names rm) = []) =
      (\<forall>g\<in>set (unique (map region (filter (\<lambda>r. model r = m) df))).
                   g \<in> set (map fst (native_regions rm))
                   \<or> g \<in> set (map fst (region_aggregation rm))
                   \<or> g = ''World'')" for m and rm :: "'a region_mapping"
    unfolding set_diff_eq_Nil model_regions_def valid_region_names_def
    by (auto simp del: set_map set_unique)
  show ?thesis
  proof (cases "unique (map model df) = []")
    case True
    then show ?thesis
      by (simp add: validate_region_mappings_def del: unique_eq_Nil)
  next
    case False
    then have "validate_region_mappings iter fs df p =
        region_loop iter fs df p (unique (map model df)) (True, [])"
      by (simp add: validate_region_mappings_def Let_def del: unique_eq_Nil)
    then show ?thesis
      unfolding region_loop_closed ok using False by simp
  qed
qed

theorem validate_region_mappings_iff_witness:
  "fst (validate_region_mappings id sample_filesystem
     [mk_row ''model'' ''valid_scenario'' ''World'' ''Emissions|CO2'' ''Mt CO2/yr'',
      mk_row ''model'' ''valid_scenario'' ''Some country'' ''Emissions|CO2'' ''Mt CO2/yr'']
     ''region_mapping'')"
proof -
  have g: "get_region_mapping sample_filesystem ''region_mapping'' ''model'' =
      ([], Inr \<lparr>mapping_model = Some ''model'', native_regions = [(''Some country'', ())],
                region_aggregation = [(''Some region'', ())]\<rparr>)"
    by (simp add: get_region_mapping_def sample_filesystem_def endswith_def path_join_def)
  show ?thesis
    unfolding validate_region_mappings_iff
    by (simp add: mk_row_def unique_def g)
qed

text \<open>
  C5: when the resolver raises for one model of the dataset, the error is logged after
  the resolver's own records, the result is false, and the loop goes on with the
  models that follow: the log is the reports of the models before, the error, and the
  reports of all the models after it.
\<close>

theorem validate_region_mappings_error_caught:
  assumes "unique (map model df) = pre @ m # post"
    and "get_region_mapping fs p m = (glog, Inl (IxmpServerWorkflowError msg))"
  shows "fst (validate_region_mappings iter fs df p) = False
    \<and> snd (validate_region_mappings iter fs df p) =
        concat (map (model_report iter fs df p) pre)
        @ glog @ [(ERROR, msg)]
        @ concat (map (model_report iter fs df p) post)
    \<and> validate_region_mappings iter fs df p =
        region_loop iter fs df p post
          (False, concat (map (model_report iter fs df p) pre) @ glog @ [(ERROR, msg)])"
proof -
  have ne: "length (unique (map model df)) \<noteq> 0"
    using assms(1) by (simp del: unique_eq_Nil)
  have v: "validate_region_mappings iter fs df p =
      region_loop iter fs df p (pre @ m # post) (True, [])"
    using ne unfolding validate_region_mappings_def Let_def assms(1) [symmetric]
    by (simp del: unique_eq_Nil)
  have rep: "model_report iter fs df p m = glog @ [(ERROR, msg)]"
    by (simp add: model_report_def assms(2))
  have bad: "\<not> (\<exists>rm. snd (get_region_mapping fs p m) = Inr rm
       \<and> set_diff (model_regions df m) (valid_region_names rm) = [])"
    by (simp add: assms(2))
  have 1: "fst (validate_region_mappings iter fs df p) = False"
    unfolding v region_loop_closed using bad by simp
  have 2: "snd (validate_region_mappings iter fs df p) =
        concat (map (model_report iter fs df p) pre)
        @ glog @ [(ERROR, msg)]
        @ concat (map (model_report iter fs df p) post)"
    unfolding v region_loop_closed by (simp add: rep)
  have 3: "validate_region_mappings iter fs df p =
        region_loop iter fs df p post
          (False, concat (map (model_report iter fs df p) pre) @ glog @ [(ERROR, msg)])"
    using 1 2 unfolding region_loop_closed [of iter fs df p post]
    by (simp add: prod_eq_iff)
  from 1 2 3 show ?thesis by blast
qed

theorem validate_region_mappings_error_caught_witness:
  "validate_region_mappings id sample_filesystem
     [mk_row ''invalid_model'' ''invalid_scenario'' ''World'' ''Emissions|CH4'' ''Mt CH4/yr'',
      mk_row ''model'' ''invalid_scenario'' ''Unknown country'' ''Emissions|CO2'' ''kt CO2/yr'']
     ''region_mapping''
   = (False,
      [(ERROR, ''No region mapping found for model \"invalid_model\" in path \"region_mapping\"''),
       (WARNING, ''Model model contains unknown region names: Unknown country'')])"
proof -
  let ?df = "[mk_row ''invalid_model'' ''invalid_scenario'' ''World'' ''Emissions|CH4'' ''Mt CH4/yr'',
      mk_row ''model'' ''invalid_scenario'' ''Unknown country'' ''Emissions|CO2'' ''kt CO2/yr'']"
  have 1: "unique (map model ?df) = [] @ ''invalid_model'' # [''model'']"
    by (simp add: mk_row_def unique_def)
  have 2: "get_region_mapping sample_filesystem ''region_mapping'' ''invalid_model'' =
      ([], Inl (IxmpServerWorkflowError
         ''No region mapping found for model \"invalid_model\" in path \"region_mapping\"''))"
    by (simp add: get_region_mapping_def sample_filesystem_def endswith_def path_join_def
        not_found_message_def)
  have g: "get_region_mapping sample_filesystem ''region_mapping'' ''model'' =
      ([], Inr \<lparr>mapping_model = Some ''model'', native_regions = [(''Some country'', ())],
                region_aggregation = [(''Some region'', ())]\<rparr>)"
    by (simp add: get_region_mapping_def sample_filesystem_def endswith_def path_join_def)
  have rep: "model_report id sample_filesystem ?df ''region_mapping'' ''model'' =
      [(WARNING, ''Model model contains unknown region names: Unknown country'')]"
    by (simp add: model_report_def g model_regions_def valid_region_names_def set_diff_def
        mk_row_def unique_def)
  from validate_region_mappings_error_caught [OF 1 2, of id]
  show ?thesis
    by (simp add: rep prod_eq_iff)
qed

end
